theory Spec2Isabelle
  imports Main
begin

section \<open>Data model\<close>

text \<open>
  The todo front end (\<^verbatim>\<open>src/todo_frontend/src/App.js\<close>) keeps an ordered array of
  task objects in React state.  A task object has the fields \<^verbatim>\<open>id\<close>, \<^verbatim>\<open>title\<close> and
  \<^verbatim>\<open>completed\<close>; whatever further fields the backend sends are carried along by the
  object spreads \<^verbatim>\<open>{ ...t, completed: ... }\<close> and \<^verbatim>\<open>{ ...t, title }\<close>.  Tasks are therefore
  an extensible record, and every handler is defined on \<open>'a task_scheme\<close>: the extension
  \<open>'a\<close> stands for the fields the code never names.  The field \<^verbatim>\<open>id\<close> is called
  \<open>task_id\<close> here, since \<open>id\<close> is the identity function of HOL.

  An identifier is a number or a string; \<^verbatim>\<open>===\<close> never identifies a number with a string,
  and neither does equality on \<open>ident\<close>.
\<close>

datatype ident = IdNum int | IdStr string

record task =
  task_id :: ident
  title :: string
  completed :: bool

text \<open>A JavaScript \<^verbatim>\<open>Error\<close>, reduced to the one field the code reads: \<^verbatim>\<open>e.message\<close>.\<close>

datatype js_error = Error (message: string)

text \<open>
  The state of the \<^verbatim>\<open>App\<close> component: \<^verbatim>\<open>todos\<close>, \<^verbatim>\<open>loading\<close> and \<^verbatim>\<open>err\<close>
  (the \<^verbatim>\<open>theme\<close> is independent of all of them and left out).
\<close>

record 'a app_state =
  todos :: "'a task_scheme list"
  loading :: bool
  err :: string

text \<open>The HTTP requests the handlers issue through \<^verbatim>\<open>apiFetch\<close>.\<close>

datatype request =
    GET_todos
  | POST_todos string
  | DELETE_todo ident
  | PATCH_completed ident bool
  | PATCH_title ident string

text \<open>\<^verbatim>\<open>a || b\<close> on strings: the empty string is the only falsy string.\<close>

definition or_else :: "string \<Rightarrow> string \<Rightarrow> string" where
  "or_else a b = (if a = [] then b else a)"

section \<open>The remote store client: \<^verbatim>\<open>apiFetch\<close>\<close>

text \<open>
  What \<^verbatim>\<open>apiFetch\<close> sees of a response: its status, what \<^verbatim>\<open>res.text()\<close> would give
  (\<open>None\<close> when reading the body rejects) and what \<^verbatim>\<open>res.json()\<close> would give (\<open>Inl\<close> the
  error it rejects with).  \<^verbatim>\<open>res.ok\<close> is true for the statuses 200 to 299.  The function
  returns, next to its result, the accesses it made to the body, in order.
\<close>

record 'j response =
  status :: nat
  text_result :: "string option"
  json_result :: "js_error + 'j"

datatype 'j fetch_outcome = NetworkFailure js_error | Responded "'j response"

datatype body_access = ReadText | ParseJson

datatype 'j fetched = Null | Json 'j

definition ok :: "'j response \<Rightarrow> bool" where
  "ok res = (200 \<le> status res \<and> status res \<le> 299)"

text \<open>The decimal digits of a number, as the template literal prints \<^verbatim>\<open>res.status\<close>.\<close>

definition digit_char :: "nat \<Rightarrow> char" where
  "digit_char d = char_of (48 + d)"

function show_nat :: "nat \<Rightarrow> string" where
  "show_nat n = (if n < 10 then [digit_char n] else show_nat (n div 10) @ [digit_char (n mod 10)])"
  by pat_completeness auto
termination
  by (relation "measure (\<lambda>n. n)") auto

declare show_nat.simps [simp del]

definition apiFetch :: "'j fetch_outcome \<Rightarrow> body_access list \<times> (js_error + 'j fetched)" where
  "apiFetch fo =
     (case fo of
        NetworkFailure e \<Rightarrow> ([], Inl e)
      | Responded res \<Rightarrow>
          if \<not> ok res then
            (let text = (case text_result res of None \<Rightarrow> [] | Some t \<Rightarrow> t)
             in ([ReadText],
                 Inl (Error (or_else text (''Request failed with status '' @ show_nat (status res))))))
          else if status res = 204 then ([], Inr Null)
          else (case json_result res of
                  Inl e \<Rightarrow> ([ParseJson], Inl e)
                | Inr v \<Rightarrow> ([ParseJson], Inr (Json v))))"

section \<open>The state controller: the handlers of \<^verbatim>\<open>App\<close>\<close>

text \<open>
  A handler runs up to its \<^verbatim>\<open>await\<close>, and again when the awaited call settles; other
  handlers may run in between.  Each handler is therefore two functions on the state:
  \<open>_begin\<close>, which also gives the request issued, and \<open>_settle\<close>, which takes the
  outcome of the call (\<open>Inl\<close> the error it rejected with).  The state updaters
  \<^verbatim>\<open>setTodos((prev) => ...)\<close> act on the state current when they run, in the order
  in which they were queued.

  The outcome of a call is typed by the contract of the backend: a resolved
  \<^verbatim>\<open>POST\<close> or \<^verbatim>\<open>PATCH\<close> carries a task, a resolved \<^verbatim>\<open>GET\<close> a list of tasks or
  \<^verbatim>\<open>null\<close>; what a resolved \<^verbatim>\<open>DELETE\<close> carries is never read.
\<close>

subsection \<open>Initial load\<close>

definition load_begin :: "'a app_state \<Rightarrow> 'a app_state \<times> request" where
  "load_begin s = (s\<lparr>err := [], loading := True\<rparr>, GET_todos)"

text \<open>
  \<open>mounted\<close> is the flag the effect's cleanup clears; \<^verbatim>\<open>list || []\<close> turns \<^verbatim>\<open>null\<close>
  into the empty array.
\<close>

definition load_settle ::
  "bool \<Rightarrow> js_error + 'a task_scheme list fetched \<Rightarrow> 'a app_state \<Rightarrow> 'a app_state" where
  "load_settle mounted outcome s =
     (let s1 = (case outcome of
                  Inr list \<Rightarrow>
                    if mounted then s\<lparr>todos := (case list of Null \<Rightarrow> [] | Json l \<Rightarrow> l)\<rparr> else s
                | Inl e \<Rightarrow>
                    if mounted then s\<lparr>err := or_else (message e) ''Failed to load tasks''\<rparr> else s)
      in if mounted then s1\<lparr>loading := False\<rparr> else s1)"

subsection \<open>\<^verbatim>\<open>byId\<close>\<close>

text \<open>\<^verbatim>\<open>todos.forEach((t) => map.set(t.id, t))\<close>: a later entry overwrites an earlier one.\<close>

definition byId :: "'a task_scheme list \<Rightarrow> ident \<rightharpoonup> 'a task_scheme" where
  "byId ts = fold (\<lambda>t m. m(task_id t \<mapsto> t)) ts Map.empty"

subsection \<open>\<^verbatim>\<open>addTask\<close>\<close>

definition addTask_begin :: "string \<Rightarrow> 'a app_state \<Rightarrow> 'a app_state \<times> request" where
  "addTask_begin ttl s = (s\<lparr>err := []\<rparr>, POST_todos ttl)"

text \<open>
  There is no \<^verbatim>\<open>try\<close> in \<^verbatim>\<open>addTask\<close>: a rejected call rejects the handler's promise,
  which is the second component of the result.
\<close>

definition addTask_settle ::
  "js_error + 'a task_scheme \<Rightarrow> 'a app_state \<Rightarrow> 'a app_state \<times> js_error option" where
  "addTask_settle outcome s =
     (case outcome of
        Inl e \<Rightarrow> (s, Some e)
      | Inr created \<Rightarrow> (s\<lparr>todos := created # todos s\<rparr>, None))"

subsection \<open>\<^verbatim>\<open>deleteTask\<close>\<close>

definition deleteTask_begin :: "ident \<Rightarrow> 'a app_state \<Rightarrow> 'a app_state \<times> request" where
  "deleteTask_begin i s = (s\<lparr>err := []\<rparr>, DELETE_todo i)"

definition deleteTask_settle ::
  "ident \<Rightarrow> js_error + 'j fetched \<Rightarrow> 'a app_state \<Rightarrow> 'a app_state \<times> js_error option" where
  "deleteTask_settle i outcome s =
     (case outcome of
        Inl e \<Rightarrow> (s, Some e)
      | Inr _ \<Rightarrow> (s\<lparr>todos := filter (\<lambda>t. task_id t \<noteq> i) (todos s)\<rparr>, None))"

subsection \<open>\<^verbatim>\<open>toggleTask\<close>\<close>

text \<open>The three updaters of \<^verbatim>\<open>toggleTask\<close>, as functions on the array.\<close>

definition toggle_optimistic :: "'a task_scheme \<Rightarrow> 'a task_scheme list \<Rightarrow> 'a task_scheme list" where
  "toggle_optimistic item prev =
     map (\<lambda>t. if task_id t = task_id item then t\<lparr>completed := \<not> completed t\<rparr> else t) prev"

definition toggle_reconcile :: "'a task_scheme \<Rightarrow> 'a task_scheme list \<Rightarrow> 'a task_scheme list" where
  "toggle_reconcile updated prev =
     map (\<lambda>t. if task_id t = task_id updated then updated else t) prev"

definition toggle_rollback :: "'a task_scheme \<Rightarrow> 'a task_scheme list \<Rightarrow> 'a task_scheme list" where
  "toggle_rollback item prev =
     map (\<lambda>t. if task_id t = task_id item then t\<lparr>completed := completed item\<rparr> else t) prev"

definition toggleTask_begin :: "'a task_scheme \<Rightarrow> 'a app_state \<Rightarrow> 'a app_state \<times> request" where
  "toggleTask_begin item s =
     (s\<lparr>err := [], todos := toggle_optimistic item (todos s)\<rparr>,
      PATCH_completed (task_id item) (\<not> completed item))"

definition toggleTask_settle ::
  "'a task_scheme \<Rightarrow> js_error + 'a task_scheme \<Rightarrow> 'a app_state \<Rightarrow> 'a app_state" where
  "toggleTask_settle item outcome s =
     (case outcome of
        Inr updated \<Rightarrow> s\<lparr>todos := toggle_reconcile updated (todos s)\<rparr>
      | Inl e \<Rightarrow> s\<lparr>todos := toggle_rollback item (todos s),
                    err := or_else (message e) ''Failed to toggle task''\<rparr>)"

text \<open>One toggle with nothing running in between.\<close>

definition toggleTask ::
  "'a task_scheme \<Rightarrow> js_error + 'a task_scheme \<Rightarrow> 'a app_state \<Rightarrow> 'a app_state" where
  "toggleTask item outcome s = toggleTask_settle item outcome (fst (toggleTask_begin item s))"

subsection \<open>\<^verbatim>\<open>editTask\<close>\<close>

text \<open>
  \<^verbatim>\<open>editTask\<close> returns before any call when \<^verbatim>\<open>byId\<close> has no entry for the id; otherwise
  the snapshot \<^verbatim>\<open>existing\<close> stays with the suspended handler until the call settles.

  \<^verbatim>\<open>byId\<close> is a \<^verbatim>\<open>useMemo\<close> value that the handler's closure captured: the table of
  the \<^verbatim>\<open>todos\<close> of the render the handler belongs to.  The updaters act on the live
  state instead, and after an update queued by a settled call and before the next
  render the two differ.  So the handler takes the rendered collection as an argument
  of its own, \<open>rendered\<close>; it is \<open>todos s\<close> when the render is up to date.
\<close>

definition editTask_begin ::
  "'a task_scheme list \<Rightarrow> ident \<Rightarrow> string \<Rightarrow> 'a app_state \<Rightarrow>
     'a app_state \<times> (request \<times> 'a task_scheme) option" where
  "editTask_begin rendered i ttl s =
     (let s1 = s\<lparr>err := []\<rparr>
      in case byId rendered i of
           None \<Rightarrow> (s1, None)
         | Some existing \<Rightarrow>
             (s1\<lparr>todos := map (\<lambda>t. if task_id t = i then t\<lparr>title := ttl\<rparr> else t) (todos s1)\<rparr>,
              Some (PATCH_title i ttl, existing)))"

definition editTask_settle ::
  "ident \<Rightarrow> 'a task_scheme \<Rightarrow> js_error + 'a task_scheme \<Rightarrow> 'a app_state \<Rightarrow> 'a app_state" where
  "editTask_settle i existing outcome s =
     (case outcome of
        Inr updated \<Rightarrow> s\<lparr>todos := map (\<lambda>t. if task_id t = i then updated else t) (todos s)\<rparr>
      | Inl e \<Rightarrow> s\<lparr>todos := map (\<lambda>t. if task_id t = i then existing else t) (todos s),
                    err := or_else (message e) ''Failed to update task''\<rparr>)"

text \<open>One edit with nothing running between its two blocks.\<close>

definition editTask ::
  "'a task_scheme list \<Rightarrow> ident \<Rightarrow> string \<Rightarrow> js_error + 'a task_scheme \<Rightarrow>
     'a app_state \<Rightarrow> 'a app_state" where
  "editTask rendered i ttl outcome s =
     (case editTask_begin rendered i ttl s of
        (s1, None) \<Rightarrow> s1
      | (s1, Some (req, existing)) \<Rightarrow> editTask_settle i existing outcome s1)"

section \<open>The new-task input: \<^verbatim>\<open>NewTaskInput.submit\<close>\<close>

text \<open>
  \<^verbatim>\<open>String.prototype.trim\<close> strips white space and line terminators from both ends.
  A \<open>char\<close> stands for a code unit below 256; of those, the ones \<^verbatim>\<open>trim\<close> strips are
  TAB, LF, VT, FF, CR, SP and NBSP.
\<close>

definition white_space :: "char \<Rightarrow> bool" where
  "white_space c = (of_char c \<in> {9, 10, 11, 12, 13, 32, 160 :: nat})"

definition trim :: "string \<Rightarrow> string" where
  "trim s = rev (dropWhile white_space (rev (dropWhile white_space s)))"

text \<open>
  The local state of the input bar: the text typed (\<^verbatim>\<open>title\<close>, here \<open>title_input\<close>) and
  \<^verbatim>\<open>busy\<close>.  \<open>submit_begin\<close> gives the argument of the call \<^verbatim>\<open>onAdd(trimmed)\<close>, or
  \<open>None\<close> when \<^verbatim>\<open>submit\<close> returns without calling it; \<open>submit_settle\<close> takes the error
  \<^verbatim>\<open>onAdd\<close> rejected with, if any, and passes it on after the \<^verbatim>\<open>finally\<close> block.
\<close>

record new_task_input =
  title_input :: string
  busy :: bool

definition submit_begin :: "bool \<Rightarrow> new_task_input \<Rightarrow> new_task_input \<times> string option" where
  "submit_begin disabled inp =
     (let trimmed = trim (title_input inp)
      in if trimmed = [] \<or> busy inp \<or> disabled then (inp, None)
         else (inp\<lparr>busy := True\<rparr>, Some trimmed))"

definition submit_settle :: "js_error option \<Rightarrow> new_task_input \<Rightarrow> new_task_input \<times> js_error option" where
  "submit_settle rejected inp =
     (case rejected of
        None \<Rightarrow> (inp\<lparr>title_input := [], busy := False\<rparr>, None)
      | Some e \<Rightarrow> (inp\<lparr>busy := False\<rparr>, Some e))"

text \<open>
  \<^verbatim>\<open><NewTaskInput onAdd={addTask} disabled={loading} />\<close>: a submission inside \<^verbatim>\<open>App\<close>, up to
  the first \<^verbatim>\<open>await\<close>, with the request it issues, if any.
\<close>

definition App_submit ::
  "new_task_input \<Rightarrow> 'a app_state \<Rightarrow> new_task_input \<times> 'a app_state \<times> request option" where
  "App_submit inp s =
     (case submit_begin (loading s) inp of
        (inp', None) \<Rightarrow> (inp', s, None)
      | (inp', Some trimmed) \<Rightarrow>
          (inp', fst (addTask_begin trimmed s), Some (snd (addTask_begin trimmed s))))"

section \<open>Overlapping toggles\<close>

text \<open>
  A toggle is two atomic blocks, the one before the \<^verbatim>\<open>await\<close> and the one after it.
  Two toggles in flight run their blocks in any order that keeps each toggle's own order.
\<close>

datatype 'a toggle_phase =
    Begin "'a task_scheme"
  | Settle "'a task_scheme" "js_error + 'a task_scheme"

fun toggle_phase_step :: "'a toggle_phase \<Rightarrow> 'a app_state \<Rightarrow> 'a app_state" where
  "toggle_phase_step (Begin item) s = fst (toggleTask_begin item s)"
| "toggle_phase_step (Settle item outcome) s = toggleTask_settle item outcome s"

definition toggle_phases :: "'a task_scheme \<Rightarrow> js_error + 'a task_scheme \<Rightarrow> 'a toggle_phase list" where
  "toggle_phases item outcome = [Begin item, Settle item outcome]"

definition run_phases :: "'a toggle_phase list \<Rightarrow> 'a app_state \<Rightarrow> 'a app_state" where
  "run_phases ps s = fold toggle_phase_step ps s"

text \<open>The number of entries of a collection that carry a given id.\<close>

definition count_id :: "ident \<Rightarrow> 'a task_scheme list \<Rightarrow> nat" where
  "count_id i ts = length (filter (\<lambda>t. task_id t = i) ts)"

section \<open>Auxiliary notions and example data\<close>

text \<open>Reading a decimal numeral back, to say what \<open>show_nat\<close> prints.\<close>

definition read_nat :: "string \<Rightarrow> nat" where
  "read_nat ds = foldl (\<lambda>a c. 10 * a + (of_char c - 48)) 0 ds"

text \<open>Two tasks, a collection holding both and a state around it, for concrete runs.\<close>

definition milk :: task where
  "milk = \<lparr>task_id = IdNum 1, title = ''milk'', completed = False\<rparr>"

definition bread :: task where
  "bread = \<lparr>task_id = IdNum 2, title = ''bread'', completed = True\<rparr>"

definition shopping :: "unit app_state" where
  "shopping = \<lparr>todos = [milk, bread], loading = False, err = ''previous failure''\<rparr>"

definition offline :: js_error where
  "offline = Error ''Failed to fetch''"

text \<open>
  Two states that other handlers may have left behind: \<open>milk\<close> completed and renamed,
  and \<open>milk\<close> deleted.
\<close>

definition changed :: "unit app_state" where
  "changed = \<lparr>todos = [milk\<lparr>title := ''soy milk'', completed := True\<rparr>, bread],
              loading = False, err = []\<rparr>"

definition deleted :: "unit app_state" where
  "deleted = \<lparr>todos = [bread], loading = False, err = []\<rparr>"

section \<open>Basic facts about the updaters\<close>

lemma map_task_id_toggle_optimistic:
  "map task_id (toggle_optimistic item ts) = map task_id ts"
  by (induction ts) (simp_all add: toggle_optimistic_def)

lemma map_task_id_toggle_rollback:
  "map task_id (toggle_rollback item ts) = map task_id ts"
  by (induction ts) (simp_all add: toggle_rollback_def)

lemma map_task_id_toggle_reconcile:
  "map task_id (toggle_reconcile updated ts) = map task_id ts"
  by (induction ts) (simp_all add: toggle_reconcile_def)

lemma toggle_rollback_optimistic:
  "toggle_rollback item (toggle_optimistic item ts) = toggle_rollback item ts"
  by (induction ts) (simp_all add: toggle_rollback_def toggle_optimistic_def)

lemma toggle_optimistic_absent:
  "task_id item \<notin> task_id ` set ts \<Longrightarrow> toggle_optimistic item ts = ts"
  by (induction ts) (auto simp: toggle_optimistic_def)

lemma toggle_rollback_absent:
  "task_id item \<notin> task_id ` set ts \<Longrightarrow> toggle_rollback item ts = ts"
  by (induction ts) (auto simp: toggle_rollback_def)

lemma todos_toggleTask_failure:
  "todos (toggleTask item (Inl e) s) = toggle_rollback item (todos s)"
  by (simp add: toggleTask_def toggleTask_begin_def toggleTask_settle_def
      toggle_rollback_optimistic)

text \<open>\<^verbatim>\<open>byId\<close> has an entry exactly for the ids of the collection, and the entry carries its key.\<close>

lemma byId_snoc: "byId (ts @ [t]) = (byId ts)(task_id t \<mapsto> t)"
  by (simp add: byId_def)

lemma byId_None_iff: "byId ts i = None \<longleftrightarrow> i \<notin> task_id ` set ts"
  by (induction ts rule: rev_induct) (auto simp: byId_snoc byId_def)

lemma byId_SomeD: "byId ts i = Some t \<Longrightarrow> t \<in> set ts \<and> task_id t = i"
  by (induction ts rule: rev_induct) (auto simp: byId_snoc byId_def split: if_splits)

lemma todos_editTask_failure:
  assumes "byId rendered i = Some existing"
  shows "todos (editTask rendered i ttl (Inl e) s) =
           map (\<lambda>t. if task_id t = i then existing else t) (todos s)"
  using assms
  by (simp add: editTask_def editTask_begin_def editTask_settle_def comp_def if_distrib
      cong: if_cong)

lemma todos_editTask_settle_failure:
  "todos (editTask_settle i existing (Inl e) s) =
     map (\<lambda>t. if task_id t = i then existing else t) (todos s)"
  by (simp add: editTask_settle_def)

lemma edit_updaters_absent:
  "i \<notin> task_id ` set ts \<Longrightarrow> map (\<lambda>t. if task_id t = i then f t else t) ts = ts"
  by (induction ts) auto

section \<open>Rollback of a failed toggle\<close>

text \<open>
  C1: when a task of the collection is toggled and the update call fails, then after the
  handler has settled there is an entry with the task's id, and every entry with that id
  has the \<open>completed\<close> value the task had before the toggle.
\<close>

theorem toggleTask_failure_restores_completed:
  assumes "item \<in> set (todos s)"
  shows "(\<exists>t \<in> set (todos (toggleTask item (Inl e) s)). task_id t = task_id item) \<and>
         (\<forall>t \<in> set (todos (toggleTask item (Inl e) s)).
            task_id t = task_id item \<longrightarrow> completed t = completed item)"
proof
  have "item\<lparr>completed := completed item\<rparr> \<in> set (toggle_rollback item (todos s))"
    using assms by (force simp: toggle_rollback_def)
  then show "\<exists>t \<in> set (todos (toggleTask item (Inl e) s)). task_id t = task_id item"
    unfolding todos_toggleTask_failure by force
  show "\<forall>t \<in> set (todos (toggleTask item (Inl e) s)).
          task_id t = task_id item \<longrightarrow> completed t = completed item"
    unfolding todos_toggleTask_failure by (auto simp: toggle_rollback_def)
qed

theorem toggleTask_failure_restores_completed_witness:
  "milk \<in> set (todos shopping) \<and>
   (\<exists>t \<in> set (todos (toggleTask milk (Inl offline) shopping)).
      task_id t = task_id milk \<and> completed t = completed milk)"
proof -
  have h: "milk \<in> set (todos shopping)"
    by (simp add: shopping_def)
  show ?thesis
    using h toggleTask_failure_restores_completed [OF h, of offline] by blast
qed

text \<open>With unique ids the failed toggle gives back the very collection it started from.\<close>

lemma toggleTask_failure_restores_collection:
  assumes "item \<in> set (todos s)" and "distinct (map task_id (todos s))"
  shows "todos (toggleTask item (Inl e) s) = todos s"
proof -
  have "\<forall>t \<in> set (todos s). task_id t = task_id item \<longrightarrow> t = item"
    using assms by (metis distinct_map inj_onD)
  then have "toggle_rollback item (todos s) = todos s"
    unfolding toggle_rollback_def by (intro map_idI) auto
  then show ?thesis
    by (simp add: todos_toggleTask_failure)
qed

lemma toggleTask_failure_example:
  "toggleTask milk (Inl offline) shopping = shopping\<lparr>err := ''Failed to fetch''\<rparr>"
  by (simp add: toggleTask_def toggleTask_begin_def toggleTask_settle_def toggle_optimistic_def
      toggle_rollback_def shopping_def milk_def bread_def offline_def or_else_def)

section \<open>Rollback of a failed edit\<close>

text \<open>
  C2: let the id be in the collection the handler's render shows (the collection
  itself when the render is up to date).  Then \<^verbatim>\<open>editTask\<close> takes the snapshot
  \<open>existing\<close>, an entry of that collection with that id, before it replaces the title,
  and issues the update call.  When the call fails, the rollback acts on whatever state
  \<open>s'\<close> is current at settlement: the collection keeps its length, every entry with
  the id becomes the snapshot itself, in all its fields, and every other entry stays as
  it is.  So after settlement every entry with the id is the snapshot, and there is one
  if the id is still in the collection.  The same holds for the edit run without
  anything in between.
\<close>

theorem editTask_failure_restores_snapshot:
  assumes "i \<in> task_id ` set rendered"
  shows "\<exists>existing. byId rendered i = Some existing \<and>
           existing \<in> set rendered \<and> task_id existing = i \<and>
           snd (editTask_begin rendered i ttl s) = Some (PATCH_title i ttl, existing) \<and>
           length (todos (editTask_settle i existing (Inl e) s')) = length (todos s') \<and>
           (\<forall>k < length (todos s').
              todos (editTask_settle i existing (Inl e) s') ! k =
                (if task_id (todos s' ! k) = i then existing else todos s' ! k)) \<and>
           (\<forall>t \<in> set (todos (editTask_settle i existing (Inl e) s')).
              task_id t = i \<longrightarrow> t = existing) \<and>
           (i \<in> task_id ` set (todos s') \<longrightarrow>
              existing \<in> set (todos (editTask_settle i existing (Inl e) s'))) \<and>
           (\<forall>t \<in> set (todos (editTask rendered i ttl (Inl e) s)).
              task_id t = i \<longrightarrow> t = existing) \<and>
           (i \<in> task_id ` set (todos s) \<longrightarrow>
              existing \<in> set (todos (editTask rendered i ttl (Inl e) s)))"
proof -
  from assms obtain existing where ex: "byId rendered i = Some existing"
    using byId_None_iff [of rendered i] by auto
  then have mem: "existing \<in> set rendered" "task_id existing = i"
    using byId_SomeD by blast+
  have req: "snd (editTask_begin rendered i ttl s) = Some (PATCH_title i ttl, existing)"
    using ex by (simp add: editTask_begin_def)
  have len: "length (todos (editTask_settle i existing (Inl e) s')) = length (todos s')"
    by (simp add: todos_editTask_settle_failure)
  have nth: "\<forall>k < length (todos s').
      todos (editTask_settle i existing (Inl e) s') ! k =
        (if task_id (todos s' ! k) = i then existing else todos s' ! k)"
    by (simp add: todos_editTask_settle_failure)
  have all: "\<forall>t \<in> set (map (\<lambda>t. if task_id t = i then existing else t) ts).
      task_id t = i \<longrightarrow> t = existing" for ts
    by auto
  have some: "i \<in> task_id ` set ts \<longrightarrow>
      existing \<in> set (map (\<lambda>t. if task_id t = i then existing else t) ts)" for ts
    by force
  show ?thesis
    using ex mem req len nth all [of "todos s'"] some [of "todos s'"]
      all [of "todos s"] some [of "todos s"]
    by (simp only: todos_editTask_settle_failure todos_editTask_failure [OF ex]) blast
qed

text \<open>
  An edit of \<open>milk\<close> starts on an up-to-date render; while its call is in flight other
  handlers complete and rename the entry (state \<open>changed\<close>); then the call fails.
\<close>

theorem editTask_failure_restores_snapshot_witness:
  "IdNum 1 \<in> task_id ` set (todos shopping) \<and>
   byId (todos shopping) (IdNum 1) = Some milk \<and>
   snd (editTask_begin (todos shopping) (IdNum 1) ''oat milk'' shopping)
     = Some (PATCH_title (IdNum 1) ''oat milk'', milk) \<and>
   (0::nat) < length (todos changed) \<and>
   task_id (todos changed ! 0) = IdNum 1 \<and>
   todos (editTask_settle (IdNum 1) milk (Inl offline) changed) ! 0 = milk \<and>
   IdNum 1 \<in> task_id ` set (todos changed) \<and>
   milk \<in> set (todos (editTask_settle (IdNum 1) milk (Inl offline) changed)) \<and>
   milk \<in> set (todos (editTask (todos shopping) (IdNum 1) ''oat milk'' (Inl offline) shopping))"
proof -
  have h: "IdNum 1 \<in> task_id ` set (todos shopping)"
    by (simp add: shopping_def milk_def)
  have b: "byId (todos shopping) (IdNum 1) = Some milk"
    by (simp add: byId_def shopping_def milk_def bread_def)
  have c: "(0::nat) < length (todos changed)" "task_id (todos changed ! 0) = IdNum 1"
    "IdNum 1 \<in> task_id ` set (todos changed)"
    by (simp_all add: changed_def milk_def)
  from editTask_failure_restores_snapshot [OF h, of "''oat milk''" shopping offline changed]
  obtain existing where e: "byId (todos shopping) (IdNum 1) = Some existing"
    and r: "snd (editTask_begin (todos shopping) (IdNum 1) ''oat milk'' shopping)
              = Some (PATCH_title (IdNum 1) ''oat milk'', existing)"
    and n: "\<forall>k < length (todos changed).
              todos (editTask_settle (IdNum 1) existing (Inl offline) changed) ! k =
                (if task_id (todos changed ! k) = IdNum 1 then existing else todos changed ! k)"
    and m: "IdNum 1 \<in> task_id ` set (todos changed) \<longrightarrow>
              existing \<in> set (todos (editTask_settle (IdNum 1) existing (Inl offline) changed))"
    and m': "IdNum 1 \<in> task_id ` set (todos shopping) \<longrightarrow>
              existing \<in> set (todos (editTask (todos shopping) (IdNum 1) ''oat milk''
                                      (Inl offline) shopping))"
    by blast
  from e b have "existing = milk" by simp
  with r n m m' h b c show ?thesis by simp
qed

lemma editTask_failure_example:
  "editTask (todos shopping) (IdNum 1) ''oat milk'' (Inl offline) shopping
     = shopping\<lparr>err := ''Failed to fetch''\<rparr>"
  by (simp add: editTask_def editTask_begin_def editTask_settle_def byId_def
      shopping_def milk_def bread_def offline_def or_else_def)

text \<open>
  The rollback restores more than the title: the entry that was completed and renamed
  in the meantime is the snapshot again.
\<close>

lemma editTask_failure_after_changes_example:
  "editTask_settle (IdNum 1) milk (Inl offline) changed
     = \<lparr>todos = [milk, bread], loading = False, err = ''Failed to fetch''\<rparr>"
  by (simp add: editTask_settle_def changed_def milk_def bread_def offline_def or_else_def)

text \<open>
  A render that lags: \<open>milk\<close> has been deleted (state \<open>deleted\<close>), the handler still
  belongs to the render that shows it.  The snapshot comes from the render and the call
  is issued; its failure sets the error message, and the collection stays without
  \<open>milk\<close>.
\<close>

lemma editTask_stale_render_example:
  "editTask_begin (todos shopping) (IdNum 1) ''oat milk'' deleted
     = (deleted, Some (PATCH_title (IdNum 1) ''oat milk'', milk)) \<and>
   editTask (todos shopping) (IdNum 1) ''oat milk'' (Inl offline) deleted
     = deleted\<lparr>err := ''Failed to fetch''\<rparr>"
  by (simp add: editTask_def editTask_begin_def editTask_settle_def byId_def
      shopping_def deleted_def milk_def bread_def offline_def or_else_def)

section \<open>The error message\<close>

text \<open>
  C3, as the code has it: each of load, add, toggle, edit and delete clears the error
  message before anything else, and a failed toggle or edit sets a message that is not
  empty: the message of the rejection, or a fixed text when that is empty.
\<close>

theorem error_message_policy:
  "err (fst (load_begin s)) = [] \<and>
   err (fst (addTask_begin ttl s)) = [] \<and>
   err (fst (toggleTask_begin item s)) = [] \<and>
   err (fst (editTask_begin rendered i ttl s)) = [] \<and>
   err (fst (deleteTask_begin i s)) = [] \<and>
   err (toggleTask_settle item (Inl e) s) = or_else (message e) ''Failed to toggle task'' \<and>
   err (toggleTask_settle item (Inl e) s) \<noteq> [] \<and>
   err (editTask_settle i existing (Inl e) s) = or_else (message e) ''Failed to update task'' \<and>
   err (editTask_settle i existing (Inl e) s) \<noteq> []"
  by (simp add: load_begin_def addTask_begin_def toggleTask_begin_def editTask_begin_def
      deleteTask_begin_def toggleTask_settle_def editTask_settle_def or_else_def Let_def
      split: option.split)

text \<open>
  C3 as it is written fails for add and for delete: when the call is rejected, the
  handler leaves the error message empty and hands the error to its caller.
\<close>

theorem failed_add_or_delete_sets_no_message:
  "err (fst (addTask_settle (Inl offline) (fst (addTask_begin ''eggs'' shopping)))) = [] \<and>
   snd (addTask_settle (Inl offline) (fst (addTask_begin ''eggs'' shopping))) = Some offline \<and>
   err (fst (deleteTask_settle (IdNum 1) (Inl offline :: js_error + unit fetched)
               (fst (deleteTask_begin (IdNum 1) shopping)))) = [] \<and>
   snd (deleteTask_settle (IdNum 1) (Inl offline :: js_error + unit fetched)
          (fst (deleteTask_begin (IdNum 1) shopping))) = Some offline"
  by (simp add: addTask_begin_def addTask_settle_def deleteTask_begin_def deleteTask_settle_def)

text \<open>What a rejected call does in the two handlers that have no \<^verbatim>\<open>catch\<close>.\<close>

lemma addTask_rejection_propagates: "addTask_settle (Inl e) s = (s, Some e)"
  by (simp add: addTask_settle_def)

lemma deleteTask_rejection_propagates: "deleteTask_settle i (Inl e) s = (s, Some e)"
  by (simp add: deleteTask_settle_def)

lemma submit_keeps_title_on_rejection:
  "submit_settle (Some e) inp = (inp\<lparr>busy := False\<rparr>, Some e)"
  by (simp add: submit_settle_def)

text \<open>The initial load, on the list of the specification's example.\<close>

lemma load_example:
  "load_settle True (Inr (Json [\<lparr>task_id = IdNum 1, title = ''A'', completed = False\<rparr>]))
     (fst (load_begin \<lparr>todos = [], loading = True, err = []\<rparr>))
   = \<lparr>todos = [\<lparr>task_id = IdNum 1, title = ''A'', completed = False\<rparr>], loading = False, err = []\<rparr>"
  by (simp add: load_settle_def load_begin_def)

section \<open>Overlapping toggles\<close>

lemma count_id_map: "count_id i ts = length (filter (\<lambda>j. j = i) (map task_id ts))"
  by (simp add: count_id_def filter_map comp_def)

lemma toggle_phase_step_ids:
  "map task_id (todos (toggle_phase_step p s)) = map task_id (todos s)"
  by (cases p)
    (simp_all add: toggleTask_begin_def toggleTask_settle_def map_task_id_toggle_optimistic
      map_task_id_toggle_rollback map_task_id_toggle_reconcile split: sum.splits)

lemma run_phases_ids: "map task_id (todos (run_phases ps s)) = map task_id (todos s)"
  unfolding run_phases_def
  by (induction ps arbitrary: s) (simp_all add: toggle_phase_step_ids)

text \<open>
  C4: let the collection hold exactly one entry with id \<open>i\<close>, and let \<open>ps\<close> be any
  interleaving of the blocks of two toggles (each an optimistic flip followed by a
  reconciliation or a rollback).  Then after every prefix of \<open>ps\<close>, so in every
  intermediate state and at the end, the collection holds exactly one entry with id \<open>i\<close>.
  The toggles may be on \<open>i\<close> or on any other id, and the server may answer with any task.
\<close>

theorem overlapping_toggles_keep_one_entry:
  assumes "count_id i (todos s) = 1"
    and "ps \<in> shuffles (toggle_phases item1 outcome1) (toggle_phases item2 outcome2)"
  shows "count_id i (todos (run_phases (take n ps) s)) = 1"
  using assms(1) by (simp add: count_id_map run_phases_ids)

theorem overlapping_toggles_keep_one_entry_witness:
  "count_id (IdNum 1) (todos shopping) = 1 \<and>
   [Begin milk, Begin (milk\<lparr>completed := True\<rparr>), Settle milk (Inl offline),
    Settle (milk\<lparr>completed := True\<rparr>) (Inr milk)]
     \<in> shuffles (toggle_phases milk (Inl offline))
         (toggle_phases (milk\<lparr>completed := True\<rparr>) (Inr milk)) \<and>
   count_id (IdNum 1)
     (todos (run_phases
        [Begin milk, Begin (milk\<lparr>completed := True\<rparr>), Settle milk (Inl offline),
         Settle (milk\<lparr>completed := True\<rparr>) (Inr milk)] shopping)) = 1"
proof -
  let ?ps = "[Begin milk, Begin (milk\<lparr>completed := True\<rparr>), Settle milk (Inl offline),
    Settle (milk\<lparr>completed := True\<rparr>) (Inr milk)]"
  have c: "count_id (IdNum 1) (todos shopping) = 1"
    by (simp add: count_id_def shopping_def milk_def bread_def)
  have sh: "?ps \<in> shuffles (toggle_phases milk (Inl offline))
         (toggle_phases (milk\<lparr>completed := True\<rparr>) (Inr milk))"
    by (simp add: toggle_phases_def Cons_in_shuffles_iff)
  show ?thesis
    using c sh overlapping_toggles_keep_one_entry [OF c sh, of 4] by simp
qed

section \<open>Deleting a task\<close>

lemma filter_remove_unique:
  assumes "distinct (map f ts)" and "t \<in> set ts"
  shows "\<exists>xs ys. ts = xs @ t # ys \<and> filter (\<lambda>u. f u \<noteq> f t) ts = xs @ ys"
proof -
  from assms(2) obtain xs ys where split: "ts = xs @ t # ys"
    by (auto simp: in_set_conv_decomp)
  with assms(1) have "f t \<notin> f ` set xs" and "f t \<notin> f ` set ys"
    by auto
  then have "\<forall>u \<in> set xs. f u \<noteq> f t" and "\<forall>u \<in> set ys. f u \<noteq> f t"
    by (metis imageI)+
  then have "filter (\<lambda>u. f u \<noteq> f t) xs = xs" and "filter (\<lambda>u. f u \<noteq> f t) ys = ys"
    by simp_all
  with split show ?thesis by auto
qed

text \<open>
  C5: in a collection with unique ids, a successful delete of the id of an entry \<open>t\<close>
  removes \<open>t\<close> and nothing else: the collection was \<open>xs @ t # ys\<close> and becomes
  \<open>xs @ ys\<close>.  Nothing is removed before the call has succeeded.
\<close>

theorem deleteTask_removes_matching_entry:
  assumes "distinct (map task_id (todos s))"
    and "t \<in> set (todos s)"
  shows "\<exists>xs ys. todos s = xs @ t # ys \<and>
           todos (fst (deleteTask_settle (task_id t) (Inr v) s)) = xs @ ys \<and>
           snd (deleteTask_settle (task_id t) (Inr v) s) = None \<and>
           todos (fst (deleteTask_begin (task_id t) s)) = todos s"
  using filter_remove_unique [OF assms]
  by (simp add: deleteTask_settle_def deleteTask_begin_def)

theorem deleteTask_removes_matching_entry_witness:
  "distinct (map task_id (todos shopping)) \<and> milk \<in> set (todos shopping) \<and>
   (\<exists>xs ys. todos shopping = xs @ milk # ys \<and>
      todos (fst (deleteTask_settle (task_id milk) (Inr (Null :: unit fetched)) shopping)) = xs @ ys \<and>
      snd (deleteTask_settle (task_id milk) (Inr (Null :: unit fetched)) shopping) = None \<and>
      todos (fst (deleteTask_begin (task_id milk) shopping)) = todos shopping)"
proof -
  have d: "distinct (map task_id (todos shopping))"
    by (simp add: shopping_def milk_def bread_def)
  have m: "milk \<in> set (todos shopping)"
    by (simp add: shopping_def)
  show ?thesis
    using d m deleteTask_removes_matching_entry [OF d m, of "Null :: unit fetched"] by blast
qed

lemma deleteTask_example:
  "todos (fst (deleteTask_settle (IdNum 1) (Inr (Null :: unit fetched)) shopping)) = [bread]"
  by (simp add: deleteTask_settle_def shopping_def milk_def bread_def)

text \<open>A successful delete of an id that is not in the collection removes nothing.\<close>

lemma filter_absent: "i \<notin> task_id ` set ts \<Longrightarrow> filter (\<lambda>t. task_id t \<noteq> i) ts = ts"
  by (induction ts) auto

lemma deleteTask_absent:
  "i \<notin> task_id ` set (todos s) \<Longrightarrow> todos (fst (deleteTask_settle i (Inr v) s)) = todos s"
  by (simp add: deleteTask_settle_def filter_absent)

section \<open>Adding a task\<close>

text \<open>
  C6: a successful add puts the task the server returned in front of the collection and
  leaves the entries that were there as they were, in their order; until the call
  resolves the collection is the one before the add (no placeholder).
\<close>

theorem addTask_prepends_created:
  "todos (fst (addTask_begin ttl s)) = todos s \<and>
   snd (addTask_begin ttl s) = POST_todos ttl \<and>
   todos (fst (addTask_settle (Inr created) s')) = created # todos s' \<and>
   snd (addTask_settle (Inr created) s') = None \<and>
   todos (fst (addTask_settle (Inr created) (fst (addTask_begin ttl s)))) = created # todos s"
  by (simp add: addTask_begin_def addTask_settle_def)


section \<open>Ids that are not in the collection\<close>

text \<open>
  C7, as the code has it: when no entry of the collection has the id, the optimistic
  flip and the failure rollback of a toggle leave the collection as it is, and so do the
  three updaters of an edit (title replacement, reconciliation, rollback).  An edit
  always clears the error message.  Whether it does more is decided by the table of the
  handler's render, not by the collection: when the render does not show the id
  either, which is the case when the render is up to date, the edit returns without a
  request and has changed nothing but the error message; when the render still shows
  the id (the entry was deleted after the render), the edit issues the update call and
  a failure of that call sets the error message.
\<close>

theorem absent_id_toggle_edit:
  assumes "task_id item \<notin> task_id ` set (todos s)"
  shows "todos (fst (toggleTask_begin item s)) = todos s \<and>
         todos (toggleTask_settle item (Inl e) s) = todos s \<and>
         todos (toggleTask item (Inl e) s) = todos s \<and>
         todos (fst (editTask_begin rendered (task_id item) ttl s)) = todos s \<and>
         err (fst (editTask_begin rendered (task_id item) ttl s)) = [] \<and>
         todos (editTask_settle (task_id item) existing outcome s) = todos s \<and>
         todos (editTask rendered (task_id item) ttl outcome s) = todos s \<and>
         editTask_begin (todos s) (task_id item) ttl s = (s\<lparr>err := []\<rparr>, None) \<and>
         editTask (todos s) (task_id item) ttl outcome s = s\<lparr>err := []\<rparr> \<and>
         (task_id item \<notin> task_id ` set rendered \<longrightarrow>
            editTask_begin rendered (task_id item) ttl s = (s\<lparr>err := []\<rparr>, None) \<and>
            editTask rendered (task_id item) ttl outcome s = s\<lparr>err := []\<rparr>) \<and>
         (task_id item \<in> task_id ` set rendered \<longrightarrow>
            (\<exists>snapshot. byId rendered (task_id item) = Some snapshot \<and>
               editTask_begin rendered (task_id item) ttl s
                 = (s\<lparr>err := []\<rparr>, Some (PATCH_title (task_id item) ttl, snapshot))) \<and>
            editTask rendered (task_id item) ttl (Inl e) s
              = s\<lparr>err := or_else (message e) ''Failed to update task''\<rparr>)"
proof -
  let ?i = "task_id item"
  have upd: "map (\<lambda>t. if task_id t = ?i then f t else t) (todos s) = todos s" for f
    using assms by (rule edit_updaters_absent)
  have tog: "todos (fst (toggleTask_begin item s)) = todos s"
    "todos (toggleTask_settle item (Inl e) s) = todos s"
    "todos (toggleTask item (Inl e) s) = todos s"
    using assms
    by (simp_all add: toggleTask_def toggleTask_begin_def toggleTask_settle_def
        toggle_optimistic_absent toggle_rollback_absent)
  have begin_todos: "todos (fst (editTask_begin rendered ?i ttl s)) = todos s"
    by (simp add: editTask_begin_def Let_def upd split: option.split)
  have begin_err: "err (fst (editTask_begin rendered ?i ttl s)) = []"
    by (simp add: editTask_begin_def Let_def split: option.split)
  have settle_todos: "todos (editTask_settle ?i x outcome s') = todos s"
    if "todos s' = todos s" for x and s' :: "'a app_state"
    using that by (cases outcome) (simp_all add: editTask_settle_def upd)
  have settle: "todos (editTask_settle ?i existing outcome s) = todos s"
    by (rule settle_todos) simp
  have run_todos: "todos (editTask rendered ?i ttl outcome s) = todos s"
  proof (cases "byId rendered ?i")
    case None
    then show ?thesis by (simp add: editTask_def editTask_begin_def)
  next
    case (Some x)
    have "todos (editTask_settle ?i x outcome
                   (s\<lparr>err := [], todos := map (\<lambda>t. if task_id t = ?i then t\<lparr>title := ttl\<rparr> else t) (todos s)\<rparr>))
          = todos s"
      by (rule settle_todos) (simp add: upd)
    with Some show ?thesis by (simp add: editTask_def editTask_begin_def)
  qed
  have none: "editTask_begin r ?i ttl s = (s\<lparr>err := []\<rparr>, None) \<and>
              editTask r ?i ttl outcome s = s\<lparr>err := []\<rparr>"
    if "?i \<notin> task_id ` set r" for r
    using that byId_None_iff [of r ?i] by (simp add: editTask_def editTask_begin_def)
  have some: "(\<exists>snapshot. byId rendered ?i = Some snapshot \<and>
               editTask_begin rendered ?i ttl s
                 = (s\<lparr>err := []\<rparr>, Some (PATCH_title ?i ttl, snapshot))) \<and>
            editTask rendered ?i ttl (Inl e) s
              = s\<lparr>err := or_else (message e) ''Failed to update task''\<rparr>"
    if "?i \<in> task_id ` set rendered"
  proof -
    from that obtain x where x: "byId rendered ?i = Some x"
      using byId_None_iff [of rendered ?i] by auto
    have b: "editTask_begin rendered ?i ttl s = (s\<lparr>err := []\<rparr>, Some (PATCH_title ?i ttl, x))"
      using x by (simp add: editTask_begin_def upd)
    have "editTask rendered ?i ttl (Inl e) s
            = s\<lparr>err := or_else (message e) ''Failed to update task''\<rparr>"
      using b by (simp add: editTask_def editTask_settle_def upd)
    with x b show ?thesis by simp
  qed
  show ?thesis
    using tog begin_todos begin_err settle run_todos none [OF assms] none [of rendered] some
    by blast
qed

theorem absent_id_toggle_edit_witness:
  "task_id (milk\<lparr>task_id := IdNum 7\<rparr>) \<notin> task_id ` set (todos shopping) \<and>
   todos (fst (toggleTask_begin (milk\<lparr>task_id := IdNum 7\<rparr>) shopping)) = todos shopping \<and>
   todos (toggleTask_settle (milk\<lparr>task_id := IdNum 7\<rparr>) (Inl offline) shopping) = todos shopping \<and>
   todos (toggleTask (milk\<lparr>task_id := IdNum 7\<rparr>) (Inl offline) shopping) = todos shopping \<and>
   editTask_begin (todos shopping) (task_id (milk\<lparr>task_id := IdNum 7\<rparr>)) ''oat milk'' shopping
     = (shopping\<lparr>err := []\<rparr>, None) \<and>
   editTask (todos shopping) (task_id (milk\<lparr>task_id := IdNum 7\<rparr>)) ''oat milk'' (Inl offline)
       shopping
     = shopping\<lparr>err := []\<rparr> \<and>
   task_id milk \<notin> task_id ` set (todos deleted) \<and>
   task_id milk \<in> task_id ` set (todos shopping) \<and>
   todos (editTask (todos shopping) (task_id milk) ''oat milk'' (Inl offline) deleted)
     = todos deleted \<and>
   editTask (todos shopping) (task_id milk) ''oat milk'' (Inl offline) deleted
     = deleted\<lparr>err := ''Failed to fetch''\<rparr>"
proof -
  have h: "task_id (milk\<lparr>task_id := IdNum 7\<rparr>) \<notin> task_id ` set (todos shopping)"
    by (simp add: shopping_def milk_def bread_def)
  have h': "task_id milk \<notin> task_id ` set (todos deleted)"
    by (simp add: deleted_def milk_def bread_def)
  have r: "task_id milk \<in> task_id ` set (todos shopping)"
    by (simp add: shopping_def)
  note fresh = absent_id_toggle_edit [OF h, of offline "todos shopping" "''oat milk''"
      milk "Inl offline"]
  note stale = absent_id_toggle_edit [OF h', of offline "todos shopping" "''oat milk''"
      milk "Inl offline"]
  from stale r have
    "todos (editTask (todos shopping) (task_id milk) ''oat milk'' (Inl offline) deleted)
       = todos deleted"
    "editTask (todos shopping) (task_id milk) ''oat milk'' (Inl offline) deleted
       = deleted\<lparr>err := or_else (message offline) ''Failed to update task''\<rparr>"
    by blast+
  then show ?thesis
    using h h' r fresh by (simp add: offline_def or_else_def)
qed

text \<open>
  C7 as it is written fails in its last part.  An edit of an id that neither the
  collection nor the render has is not without effect, since it removes the error
  message on display; and an edit of an id that the collection has lost while the
  render still shows it issues the update call and reports its failure.
\<close>

theorem editTask_absent_clears_message:
  "editTask (todos shopping) (IdNum 7) ''oat milk'' (Inr (milk\<lparr>task_id := IdNum 7\<rparr>)) shopping
     \<noteq> shopping \<and>
   IdNum 7 \<notin> task_id ` set (todos shopping) \<and>
   err shopping = ''previous failure'' \<and>
   err (editTask (todos shopping) (IdNum 7) ''oat milk'' (Inr (milk\<lparr>task_id := IdNum 7\<rparr>))
          shopping) = [] \<and>
   IdNum 1 \<notin> task_id ` set (todos deleted) \<and>
   snd (editTask_begin (todos shopping) (IdNum 1) ''oat milk'' deleted)
     = Some (PATCH_title (IdNum 1) ''oat milk'', milk) \<and>
   editTask (todos shopping) (IdNum 1) ''oat milk'' (Inl offline) deleted \<noteq> deleted \<and>
   err (editTask (todos shopping) (IdNum 1) ''oat milk'' (Inl offline) deleted)
     = ''Failed to fetch''"
  by (simp add: editTask_def editTask_begin_def editTask_settle_def byId_def shopping_def
      deleted_def milk_def bread_def offline_def or_else_def)

section \<open>Blank titles\<close>

lemma all_dropWhile_iff: "(\<forall>c \<in> set (dropWhile P s). P c) \<longleftrightarrow> (\<forall>c \<in> set s. P c)"
proof
  assume a: "\<forall>c \<in> set (dropWhile P s). P c"
  have "dropWhile P s = []"
  proof (rule ccontr)
    assume ne: "dropWhile P s \<noteq> []"
    then have "\<not> P (hd (dropWhile P s))" by (rule hd_dropWhile)
    moreover have "hd (dropWhile P s) \<in> set (dropWhile P s)" using ne by simp
    ultimately show False using a by blast
  qed
  then show "\<forall>c \<in> set s. P c" by (simp add: dropWhile_eq_Nil_conv)
next
  assume "\<forall>c \<in> set s. P c"
  then show "\<forall>c \<in> set (dropWhile P s). P c" by (meson set_dropWhileD)
qed

text \<open>The trimmed form is empty exactly for the empty and the white-space-only strings.\<close>

lemma trim_empty_iff: "trim s = [] \<longleftrightarrow> (\<forall>c \<in> set s. white_space c)"
  by (simp add: trim_def dropWhile_eq_Nil_conv all_dropWhile_iff)

text \<open>
  C8: when the trimmed form of the typed title is empty, \<^verbatim>\<open>submit\<close> returns without
  calling \<^verbatim>\<open>onAdd\<close>: no request is issued, and neither the input bar nor the state of
  the application changes, so no error is shown and none is raised.
\<close>

theorem blank_title_not_submitted:
  assumes "trim (title_input inp) = []"
  shows "submit_begin disabled inp = (inp, None) \<and> App_submit inp s = (inp, s, None)"
  using assms by (simp add: App_submit_def submit_begin_def)

theorem blank_title_not_submitted_witness:
  "trim (title_input \<lparr>title_input = ''  '', busy = False\<rparr>) = [] \<and>
   submit_begin False \<lparr>title_input = ''  '', busy = False\<rparr>
     = (\<lparr>title_input = ''  '', busy = False\<rparr>, None) \<and>
   App_submit \<lparr>title_input = ''  '', busy = False\<rparr> shopping
     = (\<lparr>title_input = ''  '', busy = False\<rparr>, shopping, None)"
proof -
  have h: "trim (title_input \<lparr>title_input = ''  '', busy = False\<rparr>) = []"
    by (simp add: trim_def white_space_def)
  show ?thesis
    using h blank_title_not_submitted [OF h, of False shopping] by simp
qed

text \<open>A title that is not blank is sent trimmed.\<close>

lemma nonblank_title_submitted:
  "App_submit \<lparr>title_input = '' eggs '', busy = False\<rparr> shopping
   = (\<lparr>title_input = '' eggs '', busy = True\<rparr>, shopping\<lparr>err := []\<rparr>, Some (POST_todos ''eggs''))"
  by (simp add: App_submit_def submit_begin_def addTask_begin_def trim_def white_space_def
      shopping_def)

section \<open>Responses that are errors, and 204\<close>

lemma of_char_digit_char: "d < 10 \<Longrightarrow> of_char (digit_char d) = 48 + d"
  by (simp add: digit_char_def)

text \<open>\<open>show_nat\<close> prints the decimal numeral of its argument.\<close>

lemma read_nat_show_nat: "read_nat (show_nat n) = n"
proof (induction n rule: show_nat.induct)
  case (1 n)
  show ?case
  proof (cases "n < 10")
    case True
    then show ?thesis
      by (subst show_nat.simps) (simp add: read_nat_def of_char_digit_char)
  next
    case False
    with 1 have "read_nat (show_nat (n div 10)) = n div 10" by simp
    with False show ?thesis
      by (subst show_nat.simps) (simp add: read_nat_def of_char_digit_char)
  qed
qed

lemma show_nat_examples: "show_nat 404 = ''404''" "show_nat 500 = ''500''"
  by code_simp+

text \<open>
  C9: for a response whose status is outside 200 to 299, \<^verbatim>\<open>apiFetch\<close> reads the body
  as text and fails; the error carries the text when there is some, and
  \<^verbatim>\<open>Request failed with status\<close> followed by the status when the text is empty or could
  not be read.  For a response with status 204 it succeeds with \<^verbatim>\<open>null\<close> and has not
  touched the body.
\<close>

theorem apiFetch_error_and_no_content:
  "((status res < 200 \<or> 299 < status res) \<longrightarrow>
      (\<forall>t. text_result res = Some t \<and> t \<noteq> [] \<longrightarrow>
           apiFetch (Responded res) = ([ReadText], Inl (Error t))) \<and>
      (text_result res = Some [] \<or> text_result res = None \<longrightarrow>
           apiFetch (Responded res) =
             ([ReadText], Inl (Error (''Request failed with status '' @ show_nat (status res)))))) \<and>
   (status res = 204 \<longrightarrow> apiFetch (Responded res) = ([], Inr Null))"
  by (auto simp: apiFetch_def ok_def or_else_def)

theorem apiFetch_error_and_no_content_witness:
  "apiFetch (Responded \<lparr>status = 500, text_result = Some ''database is down'',
                        json_result = Inl (Error ''Unexpected token d'') :: js_error + task\<rparr>)
     = ([ReadText], Inl (Error ''database is down'')) \<and>
   apiFetch (Responded \<lparr>status = 404, text_result = Some [],
                        json_result = Inl (Error ''Unexpected end of JSON input'') :: js_error + task\<rparr>)
     = ([ReadText], Inl (Error ''Request failed with status 404'')) \<and>
   apiFetch (Responded \<lparr>status = 500, text_result = None,
                        json_result = Inl (Error ''Unexpected end of JSON input'') :: js_error + task\<rparr>)
     = ([ReadText], Inl (Error ''Request failed with status 500'')) \<and>
   apiFetch (Responded \<lparr>status = 204, text_result = Some [],
                        json_result = Inl (Error ''Unexpected end of JSON input'') :: js_error + task\<rparr>)
     = ([], Inr Null)"
  using
    apiFetch_error_and_no_content [of "\<lparr>status = 500, text_result = Some ''database is down'',
                        json_result = Inl (Error ''Unexpected token d'') :: js_error + task\<rparr>"]
    apiFetch_error_and_no_content [of "\<lparr>status = 404, text_result = Some [],
                        json_result = Inl (Error ''Unexpected end of JSON input'') :: js_error + task\<rparr>"]
    apiFetch_error_and_no_content [of "\<lparr>status = 500, text_result = None,
                        json_result = Inl (Error ''Unexpected end of JSON input'') :: js_error + task\<rparr>"]
    apiFetch_error_and_no_content [of "\<lparr>status = 204, text_result = Some [],
                        json_result = Inl (Error ''Unexpected end of JSON input'') :: js_error + task\<rparr>"]
  by (simp add: show_nat_examples)

section \<open>What a toggle leaves alone\<close>

text \<open>
  C10: the optimistic flip and the failure rollback of a toggle keep the length of the
  collection; an entry with another id stays as it is; an entry with the id keeps all
  its fields but \<open>completed\<close>, which becomes its negation (flip) or the value the
  toggled item had (rollback).  The other fields are read from the entry as it is when
  the updater runs, not from the toggled item, so a title that an edit wrote in the
  meantime is still there after the rollback.
\<close>

theorem toggle_changes_only_completed:
  "todos (fst (toggleTask_begin item s)) = toggle_optimistic item (todos s) \<and>
   todos (toggleTask_settle item (Inl e) s) = toggle_rollback item (todos s) \<and>
   length (toggle_optimistic item ts) = length ts \<and>
   length (toggle_rollback item ts) = length ts \<and>
   (\<forall>k < length ts.
      (task_id (ts ! k) \<noteq> task_id item \<longrightarrow>
         toggle_optimistic item ts ! k = ts ! k \<and> toggle_rollback item ts ! k = ts ! k) \<and>
      (task_id (ts ! k) = task_id item \<longrightarrow>
         toggle_optimistic item ts ! k = (ts ! k)\<lparr>completed := \<not> completed (ts ! k)\<rparr> \<and>
         toggle_rollback item ts ! k = (ts ! k)\<lparr>completed := completed item\<rparr>) \<and>
      task_id (toggle_optimistic item ts ! k) = task_id (ts ! k) \<and>
      title (toggle_optimistic item ts ! k) = title (ts ! k) \<and>
      task.more (toggle_optimistic item ts ! k) = task.more (ts ! k) \<and>
      task_id (toggle_rollback item ts ! k) = task_id (ts ! k) \<and>
      title (toggle_rollback item ts ! k) = title (ts ! k) \<and>
      task.more (toggle_rollback item ts ! k) = task.more (ts ! k))"
  by (simp add: toggleTask_begin_def toggleTask_settle_def toggle_optimistic_def
      toggle_rollback_def)

text \<open>
  A toggle of \<open>milk\<close> is in flight when an edit renames the entry; the toggle then fails.
  Its rollback restores \<open>completed\<close> and keeps the new title.
\<close>

theorem toggle_changes_only_completed_witness:
  "todos (editTask (todos (fst (toggleTask_begin milk shopping))) (IdNum 1) ''oat milk''
            (Inr (milk\<lparr>title := ''oat milk'', completed := True\<rparr>))
            (fst (toggleTask_begin milk shopping)))
     = [milk\<lparr>title := ''oat milk'', completed := True\<rparr>, bread] \<and>
   (0::nat) < length [milk\<lparr>title := ''oat milk'', completed := True\<rparr>, bread] \<and>
   task_id ([milk\<lparr>title := ''oat milk'', completed := True\<rparr>, bread] ! 0) = task_id milk \<and>
   toggle_rollback milk [milk\<lparr>title := ''oat milk'', completed := True\<rparr>, bread] ! 0
     = milk\<lparr>title := ''oat milk''\<rparr> \<and>
   (1::nat) < length [milk\<lparr>title := ''oat milk'', completed := True\<rparr>, bread] \<and>
   task_id ([milk\<lparr>title := ''oat milk'', completed := True\<rparr>, bread] ! 1) \<noteq> task_id milk \<and>
   toggle_rollback milk [milk\<lparr>title := ''oat milk'', completed := True\<rparr>, bread] ! 1 = bread"
proof -
  let ?ts = "[milk\<lparr>title := ''oat milk'', completed := True\<rparr>, bread]"
  have run: "todos (editTask (todos (fst (toggleTask_begin milk shopping))) (IdNum 1) ''oat milk''
                (Inr (milk\<lparr>title := ''oat milk'', completed := True\<rparr>))
                (fst (toggleTask_begin milk shopping))) = ?ts"
    by (simp add: editTask_def editTask_begin_def editTask_settle_def byId_def
        toggleTask_begin_def toggle_optimistic_def shopping_def milk_def bread_def)
  have ids: "task_id (?ts ! 0) = task_id milk" "task_id (?ts ! 1) \<noteq> task_id milk"
    by (simp_all add: milk_def bread_def)
  from toggle_changes_only_completed [of milk shopping offline ?ts]
  have "\<forall>k < length ?ts.
      (task_id (?ts ! k) \<noteq> task_id milk \<longrightarrow> toggle_rollback milk ?ts ! k = ?ts ! k) \<and>
      (task_id (?ts ! k) = task_id milk \<longrightarrow>
         toggle_rollback milk ?ts ! k = (?ts ! k)\<lparr>completed := completed milk\<rparr>)"
    by blast
  then have "toggle_rollback milk ?ts ! 0 = (?ts ! 0)\<lparr>completed := completed milk\<rparr>"
    and "toggle_rollback milk ?ts ! 1 = ?ts ! 1"
    using ids by simp_all
  then have "toggle_rollback milk ?ts ! 0 = milk\<lparr>title := ''oat milk''\<rparr>"
    and "toggle_rollback milk ?ts ! 1 = bread"
    by (simp_all add: milk_def)
  with run ids show ?thesis by simp
qed

text \<open>
  The rollback of an edit is different: it puts the snapshot back whole.  An edit of
  \<open>milk\<close> is in flight when a toggle completes the entry; the edit then fails, and the
  entry is not completed any more.
\<close>

lemma editTask_rollback_overwrites_toggle:
  "todos (editTask_settle (IdNum 1) milk (Inl offline)
            (toggleTask milk (Inr (milk\<lparr>title := ''oat milk'', completed := True\<rparr>))
               (fst (editTask_begin (todos shopping) (IdNum 1) ''oat milk'' shopping))))
     = [milk, bread] \<and>
   snd (editTask_begin (todos shopping) (IdNum 1) ''oat milk'' shopping)
     = Some (PATCH_title (IdNum 1) ''oat milk'', milk)"
  by (simp add: editTask_begin_def editTask_settle_def byId_def toggleTask_def
      toggleTask_begin_def toggleTask_settle_def toggle_optimistic_def toggle_reconcile_def
      shopping_def milk_def bread_def)


end
